theory Spec2Isabelle
  imports Complex_Main
begin

section \<open>JavaScript values shared by the modules\<close>

text \<open>
  A thrown value is an \<open>Error\<close> object; only its \<open>message\<close> is ever read by the
  code. A function that may throw (or an awaited promise that may reject) returns
  \<open>js_error + 'a\<close>, with \<open>Inl\<close> for the thrown error. Console output is not modelled.
\<close>

datatype js_error = Error (message: string)

text \<open>
  An optional string property is a \<open>string option\<close> (\<open>None\<close> is \<open>undefined\<close>).
  The test \<open>!v\<close> of the source holds for \<open>undefined\<close> and for the empty string.
\<close>

definition truthy :: "string option \<Rightarrow> bool" where
  "truthy v = (case v of None \<Rightarrow> False | Some s \<Rightarrow> s \<noteq> [])"

text \<open>A value interpolated in a template string: \<open>undefined\<close> prints as its name.\<close>

definition template :: "string option \<Rightarrow> string" where
  "template v = (case v of None \<Rightarrow> ''undefined'' | Some s \<Rightarrow> s)"

section \<open>Transport configurations (dist/mcp/transports.js)\<close>

text \<open>
  \<open>TransportConfig\<close>: every property may be absent in the settings file, the
  \<open>type\<close> included, and \<open>type\<close> may hold any string. The objects \<open>env\<close> and
  \<open>headers\<close> are maps from property names to strings.
\<close>

record TransportConfig =
  ttype :: "string option"
  command :: "string option"
  args :: "string list option"
  env :: "(string \<rightharpoonup> string) option"
  url :: "string option"
  headers :: "(string \<rightharpoonup> string) option"

text \<open>The parameters handed to the SDK's \<open>StdioClientTransport\<close>.\<close>

record StdioServerParameters =
  sp_command :: "string option"
  sp_args :: "string list"
  sp_env :: "string \<rightharpoonup> string"

record StdioTransport =
  stdio_config :: TransportConfig
  stdio_transport :: "StdioServerParameters option"

text \<open>The result of \<open>axios.create\<close>: the base URL and the default headers.\<close>

record AxiosInstance =
  baseURL :: "string option"
  ax_headers :: "string \<rightharpoonup> string"

record HttpTransport =
  http_config :: TransportConfig
  http_client :: "AxiosInstance option"
  http_connected :: bool

record SSETransport =
  sse_config :: TransportConfig
  sse_connected :: bool

record StreamableHttpTransport =
  sh_config :: TransportConfig
  sh_connected :: bool

datatype HttpClientTransport = HttpClientTransport AxiosInstance

record StreamableHttpClientTransport =
  sc_url :: "string option"
  sc_headers :: "(string \<rightharpoonup> string) option"

datatype MCPTransport =
    Stdio StdioTransport
  | Http HttpTransport
  | SSE SSETransport
  | StreamableHttp StreamableHttpTransport

subsection \<open>Constructors\<close>

definition StdioTransport_new :: "TransportConfig \<Rightarrow> js_error + StdioTransport" where
  "StdioTransport_new config =
     (if \<not> truthy (command config)
      then Inl (Error ''Command is required for stdio transport'')
      else Inr \<lparr>stdio_config = config, stdio_transport = None\<rparr>)"

definition HttpTransport_new :: "TransportConfig \<Rightarrow> js_error + HttpTransport" where
  "HttpTransport_new config =
     (if \<not> truthy (url config)
      then Inl (Error ''URL is required for HTTP transport'')
      else Inr \<lparr>http_config = config, http_client = None, http_connected = False\<rparr>)"

definition SSETransport_new :: "TransportConfig \<Rightarrow> js_error + SSETransport" where
  "SSETransport_new config =
     (if \<not> truthy (url config)
      then Inl (Error ''URL is required for SSE transport'')
      else Inr \<lparr>sse_config = config, sse_connected = False\<rparr>)"

definition StreamableHttpTransport_new ::
  "TransportConfig \<Rightarrow> js_error + StreamableHttpTransport" where
  "StreamableHttpTransport_new config =
     (if \<not> truthy (url config)
      then Inl (Error ''URL is required for streamable_http transport'')
      else Inr \<lparr>sh_config = config, sh_connected = False\<rparr>)"

text \<open>
  \<open>createTransport\<close>: the \<open>switch\<close> on \<open>config.type\<close>, in the source's order; a
  constructor that throws makes \<open>createTransport\<close> throw the same error.
\<close>

definition createTransport :: "TransportConfig \<Rightarrow> js_error + MCPTransport" where
  "createTransport config =
     (if ttype config = Some ''stdio'' then map_sum id Stdio (StdioTransport_new config)
      else if ttype config = Some ''http'' then map_sum id Http (HttpTransport_new config)
      else if ttype config = Some ''sse'' then map_sum id SSE (SSETransport_new config)
      else if ttype config = Some ''streamable_http''
        then map_sum id StreamableHttp (StreamableHttpTransport_new config)
      else Inl (Error (''Unsupported transport type: '' @ template (ttype config))))"

subsection \<open>The local-process transport\<close>

text \<open>
  \<open>StdioTransport.connect\<close>: the object spread \<open>{...process.env, ...this.config.env,
  MCP_REMOTE_QUIET: '1', ...}\<close> is a right-biased merge of maps; spreading \<open>undefined\<close>
  adds nothing. The four literal properties come last.
\<close>

definition spread :: "(string \<rightharpoonup> string) option \<Rightarrow> (string \<rightharpoonup> string)" where
  "spread m = (case m of None \<Rightarrow> Map.empty | Some e \<Rightarrow> e)"

definition quiet_env :: "string \<rightharpoonup> string" where
  "quiet_env = [''MCP_REMOTE_QUIET'' \<mapsto> ''1'', ''MCP_REMOTE_SILENT'' \<mapsto> ''1'',
                ''DEBUG'' \<mapsto> '''', ''NODE_ENV'' \<mapsto> ''production'']"

definition StdioTransport_connect ::
  "(string \<rightharpoonup> string) \<Rightarrow> StdioTransport \<Rightarrow> StdioTransport \<times> (js_error + StdioServerParameters)" where
  "StdioTransport_connect process_env t =
     (let child_env = process_env ++ spread (env (stdio_config t)) ++ quiet_env;
          transport = \<lparr>sp_command = command (stdio_config t),
                       sp_args = (case args (stdio_config t) of None \<Rightarrow> [] | Some a \<Rightarrow> a),
                       sp_env = child_env\<rparr>
      in (t\<lparr>stdio_transport := Some transport\<rparr>, Inr transport))"

text \<open>The value of the variable \<open>k\<close> in the environment that \<open>connect\<close> gives the subprocess.\<close>

definition subprocess_getenv :: "(string \<rightharpoonup> string) \<Rightarrow> StdioTransport \<Rightarrow> string \<Rightarrow> string option" where
  "subprocess_getenv process_env t k =
     (case snd (StdioTransport_connect process_env t) of
        Inr p \<Rightarrow> sp_env p k
      | Inl err \<Rightarrow> None)"

subsection \<open>The request-response transport\<close>

text \<open>
  \<open>HttpTransport.connect\<close>: \<open>get_health\<close> is the outcome of the awaited
  \<open>this.client.get('/health')\<close>, which the platform decides; both the \<open>try\<close> and the
  \<open>catch\<close> branch set \<open>connected\<close>.
\<close>

definition axios_create :: "TransportConfig \<Rightarrow> AxiosInstance" where
  "axios_create config =
     \<lparr>baseURL = url config,
      ax_headers = [''Content-Type'' \<mapsto> ''application/json''] ++ spread (headers config)\<rparr>"

definition HttpTransport_connect ::
  "(AxiosInstance \<Rightarrow> js_error + 'r) \<Rightarrow> HttpTransport \<Rightarrow> HttpTransport \<times> (js_error + HttpClientTransport)" where
  "HttpTransport_connect get_health t =
     (let client = axios_create (http_config t);
          t1 = t\<lparr>http_client := Some client\<rparr>;
          t2 = (case get_health client of
                  Inr response \<Rightarrow> t1\<lparr>http_connected := True\<rparr>
                | Inl err \<Rightarrow> t1\<lparr>http_connected := True\<rparr>)
      in (t2, Inr (HttpClientTransport client)))"

definition HttpTransport_disconnect :: "HttpTransport \<Rightarrow> HttpTransport" where
  "HttpTransport_disconnect t = t\<lparr>http_connected := False, http_client := None\<rparr>"

subsection \<open>The streamable_http transport\<close>

definition StreamableHttpTransport_connect ::
  "StreamableHttpTransport \<Rightarrow> StreamableHttpTransport \<times> (js_error + StreamableHttpClientTransport)" where
  "StreamableHttpTransport_connect t =
     (t\<lparr>sh_connected := True\<rparr>,
      Inr \<lparr>sc_url = url (sh_config t), sc_headers = headers (sh_config t)\<rparr>)"

text \<open>
  \<open>StreamableHttpClientTransport.send\<close>: after two log lines the body is a single
  \<open>throw\<close>. The message is a protocol message (plain JSON data), of any type \<open>'m\<close>.
\<close>

definition StreamableHttpClientTransport_send ::
  "StreamableHttpClientTransport \<Rightarrow> 'm \<Rightarrow> js_error + 'r" where
  "StreamableHttpClientTransport_send t msg =
     Inl (Error (''StreamableHttpTransport: SSE endpoints are not compatible with MCP ''
       @ ''request-response pattern. GitHub Copilot MCP may require a different ''
       @ ''integration approach.''))"

section \<open>The server list (src/mcp/config.ts)\<close>

record MCPServerConfig =
  name :: string
  transport :: TransportConfig

record MCPConfig =
  servers :: "MCPServerConfig list"

text \<open>
  \<open>ProjectSettings.mcpServers\<close> is an optional object from property keys to server
  configurations; it is kept as the list of its properties in enumeration order, so that
  \<open>Object.values\<close> is the list of the second components. The key of a property and the
  \<open>name\<close> inside its value are independent strings.
\<close>

record ProjectSettings =
  model :: "string option"
  mcpServers :: "(string \<times> MCPServerConfig) list option"

definition Object_values :: "(string \<times> 'v) list \<Rightarrow> 'v list" where
  "Object_values obj = map snd obj"

definition sse_only :: "string \<Rightarrow> TransportConfig" where
  "sse_only u = \<lparr>ttype = Some ''sse'', command = None, args = None, env = None,
                  url = Some u, headers = None\<rparr>"

definition getZaiBuiltInServers :: "(string \<rightharpoonup> string) \<Rightarrow> MCPServerConfig list" where
  "getZaiBuiltInServers process_env =
     (let apiKey = process_env ''ZAI_API_KEY'' in
      if \<not> truthy apiKey then []
      else
        [\<lparr>name = ''zai-zread'',
          transport = sse_only (''https://api.z.ai/api/mcp/zread/sse?Authorization='' @ template apiKey)\<rparr>,
         \<lparr>name = ''zai-web-search'',
          transport = sse_only (''https://api.z.ai/api/mcp/web_search/sse?Authorization='' @ template apiKey)\<rparr>])"

text \<open>The local constant \<open>userServers\<close> of \<open>loadMCPConfig\<close>.\<close>

definition userServers :: "ProjectSettings \<Rightarrow> MCPServerConfig list" where
  "userServers projectSettings =
     (case mcpServers projectSettings of None \<Rightarrow> [] | Some obj \<Rightarrow> Object_values obj)"

definition loadMCPConfig :: "ProjectSettings \<Rightarrow> (string \<rightharpoonup> string) \<Rightarrow> MCPConfig" where
  "loadMCPConfig projectSettings process_env =
     (let zaiServers = getZaiBuiltInServers process_env;
          userServerNames = set (map name (userServers projectSettings));
          filteredZaiServers = filter (\<lambda>s. name s \<notin> userServerNames) zaiServers
      in \<lparr>servers = userServers projectSettings @ filteredZaiServers\<rparr>)"

section \<open>Tool results\<close>

text \<open>
  \<open>ToolResult\<close>: \<open>{ success, output?, error?, data? }\<close>. The only structured
  \<open>data\<close> built by the tools below is the web search's.
\<close>

record WebSearchResult =
  title :: string
  content :: string
  link :: string
  media :: string
  publish_date :: "string option"

record WebSearchData =
  results :: "WebSearchResult list"
  result_count :: nat
  data_request_id :: "string option"

record ToolResult =
  success :: bool
  tool_output :: "string option"
  error :: "string option"
  data :: "WebSearchData option"

definition failure :: "string \<Rightarrow> ToolResult" where
  "failure msg = \<lparr>success = False, tool_output = None, error = Some msg, data = None\<rparr>"

subsection \<open>Numbers and white space in strings\<close>

definition digit_char :: "nat \<Rightarrow> char" where
  "digit_char d = char_of (48 + d)"

text \<open>The decimal digits of a natural number, as a template string prints it.\<close>

fun show_nat :: "nat \<Rightarrow> string" where
  "show_nat n = (if n < 10 then [digit_char n] else show_nat (n div 10) @ [digit_char (n mod 10)])"

declare show_nat.simps [simp del]

definition dquote :: char where
  "dquote = CHR 0x22"

definition newline :: char where
  "newline = CHR 0x0A"

text \<open>White space as \<open>String.prototype.trim\<close> sees it, on the ASCII range.\<close>

definition is_space :: "char \<Rightarrow> bool" where
  "is_space c = (c \<in> set [CHR 0x20, CHR 0x09, CHR 0x0A, CHR 0x0B, CHR 0x0C, CHR 0x0D])"

definition trim :: "string \<Rightarrow> string" where
  "trim s = rev (dropWhile is_space (rev (dropWhile is_space s)))"

section \<open>The web search tool (web-search.js)\<close>

text \<open>
  A JavaScript number: a finite number, an infinity, or \<open>NaN\<close>. \<open>Math.max\<close> and
  \<open>Math.min\<close> give \<open>NaN\<close> as soon as an argument is \<open>NaN\<close>.
\<close>

datatype js_number = Num real | PosInfinity | NegInfinity | NaN

fun Math_max :: "js_number \<Rightarrow> js_number \<Rightarrow> js_number" where
  "Math_max NaN b = NaN"
| "Math_max a NaN = NaN"
| "Math_max PosInfinity b = PosInfinity"
| "Math_max a PosInfinity = PosInfinity"
| "Math_max NegInfinity b = b"
| "Math_max a NegInfinity = a"
| "Math_max (Num x) (Num y) = Num (max x y)"

fun Math_min :: "js_number \<Rightarrow> js_number \<Rightarrow> js_number" where
  "Math_min NaN b = NaN"
| "Math_min a NaN = NaN"
| "Math_min NegInfinity b = NegInfinity"
| "Math_min a NegInfinity = NegInfinity"
| "Math_min PosInfinity b = b"
| "Math_min a PosInfinity = a"
| "Math_min (Num x) (Num y) = Num (min x y)"

record WebSearchOptions =
  search_engine :: "string option"
  count :: "js_number option"
  search_domain_filter :: "string option"
  search_recency_filter :: "string option"
  content_size :: "string option"

text \<open>The request body; \<open>search_domain_filter\<close> is absent unless it is set after.\<close>

record RequestBody =
  rb_search_engine :: string
  rb_search_query :: string
  rb_count :: js_number
  rb_search_recency_filter :: string
  rb_content_size :: string
  rb_search_domain_filter :: "string option"

record WebSearchResponse =
  search_result :: "WebSearchResult list option"
  request_id :: "string option"

text \<open>
  What \<open>fetch\<close> resolves to: \<open>ok\<close>, \<open>status\<close>, and the outcomes of the awaited
  \<open>text()\<close> and \<open>json()\<close>, each of which may reject.
\<close>

record HttpResponse =
  ok :: bool
  status :: nat
  body_text :: "js_error + string"
  body_json :: "js_error + WebSearchResponse"

record HttpRequest =
  req_url :: string
  req_method :: string
  req_headers :: "(string \<times> string) list"
  req_body :: RequestBody

record WebSearchTool =
  apiKey :: string
  ws_baseURL :: string

text \<open>The constructor: \<open>a || b || c\<close> takes the first truthy operand, else the last.\<close>

definition WebSearchTool_new ::
  "(string \<rightharpoonup> string) \<Rightarrow> string option \<Rightarrow> string option \<Rightarrow> WebSearchTool" where
  "WebSearchTool_new process_env key base =
     \<lparr>apiKey = (if truthy key then template key
                else if truthy (process_env ''ZAI_API_KEY'') then template (process_env ''ZAI_API_KEY'')
                else []),
      ws_baseURL = (if truthy base then template base
                    else if truthy (process_env ''ZAI_BASE_URL'') then template (process_env ''ZAI_BASE_URL'')
                    else ''https://api.z.ai'')\<rparr>"

definition default_to :: "'a \<Rightarrow> 'a option \<Rightarrow> 'a" where
  "default_to d v = (case v of None \<Rightarrow> d | Some x \<Rightarrow> x)"

text \<open>
  The destructuring with defaults and the request body of \<open>search\<close>, with its
  \<open>count: Math.min(Math.max(count, 1), 50), // Clamp to 1-50\<close>.
\<close>

definition requestBody :: "string \<Rightarrow> WebSearchOptions \<Rightarrow> RequestBody" where
  "requestBody query options =
     \<lparr>rb_search_engine = default_to ''search-prime'' (search_engine options),
      rb_search_query = query,
      rb_count = Math_min (Math_max (default_to (Num 10) (count options)) (Num 1)) (Num 50),
      rb_search_recency_filter = default_to ''noLimit'' (search_recency_filter options),
      rb_content_size = default_to ''medium'' (content_size options),
      rb_search_domain_filter =
        (if truthy (search_domain_filter options) then search_domain_filter options else None)\<rparr>"

definition no_options :: WebSearchOptions where
  "no_options = \<lparr>search_engine = None, count = None, search_domain_filter = None,
                   search_recency_filter = None, content_size = None\<rparr>"

text \<open>One entry of \<open>formatSearchResults\<close>; \<open>index\<close> counts from 0.\<close>

definition formatSearchResult :: "nat \<Rightarrow> WebSearchResult \<Rightarrow> string" where
  "formatSearchResult index result =
     ''['' @ show_nat (index + 1) @ ''] '' @ title result @ [newline]
     @ ''    Source: '' @ media result
     @ (if truthy (publish_date result) then '' ('' @ template (publish_date result) @ '')'' else [])
     @ [newline]
     @ ''    URL: '' @ link result @ [newline]
     @ ''    Summary: ''
     @ (if length (content result) > 300 then take 300 (content result) @ ''...''
        else content result)
     @ [newline, newline]"

definition formatSearchResults :: "WebSearchResult list \<Rightarrow> string \<Rightarrow> string" where
  "formatSearchResults rs query =
     trim (''Web search results for '' @ [dquote] @ query @ [dquote] @ '':'' @ [newline, newline]
           @ concat (map (\<lambda>(index, result). formatSearchResult index result)
                         (zip [0..<length rs] rs)))"

text \<open>
  The request that \<open>search\<close> hands to \<open>fetch\<close>; the body is kept as the object
  given to \<open>JSON.stringify\<close>, which writes a \<open>NaN\<close> or infinite number as \<open>null\<close>.
\<close>

definition search_request :: "WebSearchTool \<Rightarrow> string \<Rightarrow> WebSearchOptions \<Rightarrow> HttpRequest" where
  "search_request tool query options =
     \<lparr>req_url = ws_baseURL tool @ ''/api/tools/web_search'',
      req_method = ''POST'',
      req_headers = [(''Content-Type'', ''application/json''),
                     (''Authorization'', ''Bearer '' @ apiKey tool)],
      req_body = requestBody query options\<rparr>"

text \<open>
  The \<open>try\<close> block of \<open>search\<close>. \<open>fetch\<close> is the platform's: it gets the request
  and resolves to a response or rejects.
\<close>

definition search_try ::
  "(HttpRequest \<Rightarrow> js_error + HttpResponse) \<Rightarrow> WebSearchTool \<Rightarrow> string \<Rightarrow>
     WebSearchOptions \<Rightarrow> js_error + ToolResult" where
  "search_try fetch tool query options =
     (let request = search_request tool query options
      in case fetch request of
           Inl err \<Rightarrow> Inl err
         | Inr response \<Rightarrow>
             if \<not> ok response then
               (case body_text response of
                  Inl err \<Rightarrow> Inl err
                | Inr errorText \<Rightarrow>
                    Inr (failure (''Web search failed ('' @ show_nat (status response) @ ''): ''
                                  @ errorText)))
             else
               (case body_json response of
                  Inl err \<Rightarrow> Inl err
                | Inr d \<Rightarrow>
                    (case search_result d of
                       None \<Rightarrow>
                         Inr \<lparr>success = True,
                              tool_output = Some (''No results found for '' @ [dquote] @ query @ [dquote]),
                              error = None, data = None\<rparr>
                     | Some rs \<Rightarrow>
                         if length rs = 0 then
                           Inr \<lparr>success = True,
                                tool_output = Some (''No results found for '' @ [dquote] @ query @ [dquote]),
                                error = None, data = None\<rparr>
                         else
                           Inr \<lparr>success = True,
                                tool_output = Some (formatSearchResults rs query),
                                error = None,
                                data = Some \<lparr>results = rs, result_count = length rs,
                                              data_request_id = request_id d\<rparr>\<rparr>)))"

text \<open>
  \<open>WebSearchTool.search\<close>: \<open>options\<close> defaults to \<open>{}\<close> when the argument is
  omitted. The result is a sum, so that an exception leaving \<open>search\<close> would be a value.
\<close>

definition WebSearchTool_search ::
  "(HttpRequest \<Rightarrow> js_error + HttpResponse) \<Rightarrow> WebSearchTool \<Rightarrow> string \<Rightarrow>
     WebSearchOptions option \<Rightarrow> js_error + ToolResult" where
  "WebSearchTool_search fetch tool query options =
     (if apiKey tool = [] then
        Inr (failure ''ZAI_API_KEY is required for web search. Set it in your environment.'')
      else
        (case search_try fetch tool query (default_to no_options options) of
           Inr r \<Rightarrow> Inr r
         | Inl err \<Rightarrow> Inr (failure (''Web search error: '' @ message err))))"

section \<open>The backup manager (backup-manager.ts)\<close>

subsection \<open>The file system\<close>

text \<open>
  The files the manager reads and writes: a path holds a file with its text, a
  directory, or nothing. \<open>readFile\<close> rejects on a missing path and on a directory;
  \<open>writeFile\<close> creates or replaces a file and rejects on a directory, leaving the
  file system as it was.
\<close>

datatype fs_node = File string | Directory

type_synonym filesystem = "string \<rightharpoonup> fs_node"

definition readFile :: "filesystem \<Rightarrow> string \<Rightarrow> js_error + string" where
  "readFile fs path =
     (case fs path of
        None \<Rightarrow> Inl (Error (''ENOENT: no such file or directory, open '' @ path))
      | Some Directory \<Rightarrow> Inl (Error ''EISDIR: illegal operation on a directory, read'')
      | Some (File text) \<Rightarrow> Inr text)"

definition writeFile :: "filesystem \<Rightarrow> string \<Rightarrow> string \<Rightarrow> js_error + filesystem" where
  "writeFile fs path text =
     (case fs path of
        Some Directory \<Rightarrow> Inl (Error (''EISDIR: illegal operation on a directory, open '' @ path))
      | _ \<Rightarrow> Inr (fs(path \<mapsto> File text)))"

subsection \<open>Backups\<close>

record BackupMetadata =
  originalPath :: string
  backupPath :: string
  timestamp :: int
  byte_size :: nat
  checksum :: string

text \<open>
  The manager's state is its index, a \<open>Map\<close> from resolved paths to the array of
  their backups. \<open>sha256_hex\<close> stands for \<open>crypto.createHash("sha256")...digest("hex")\<close>
  and \<open>path_resolve\<close> for \<open>path.resolve\<close>; both are the platform's.
\<close>

type_synonym backup_index = "string \<rightharpoonup> BackupMetadata list"

definition computeChecksum :: "(string \<Rightarrow> string) \<Rightarrow> string \<Rightarrow> string" where
  "computeChecksum sha256_hex text = sha256_hex text"

text \<open>
  The choice of the backup in \<open>restoreBackup\<close>: \<open>if (backupTimestamp)\<close> is false for
  an absent timestamp and for 0. With a timestamp, \<open>find\<close> gives the first backup that
  carries it; without, the array is sorted in place, latest first (the sort is stable),
  and its first element is taken. The result is the array as it is left and the backup.
\<close>

definition selectBackup ::
  "BackupMetadata list \<Rightarrow> int option \<Rightarrow> BackupMetadata list \<times> BackupMetadata option" where
  "selectBackup backups backupTimestamp =
     (case backupTimestamp of
        Some t \<Rightarrow>
          if t \<noteq> 0 then (backups, find (\<lambda>b. timestamp b = t) backups)
          else (let sorted = sort_key (\<lambda>b. - timestamp b) backups
                in (sorted, case sorted of [] \<Rightarrow> None | b # rest \<Rightarrow> Some b))
      | None \<Rightarrow>
          (let sorted = sort_key (\<lambda>b. - timestamp b) backups
           in (sorted, case sorted of [] \<Rightarrow> None | b # rest \<Rightarrow> Some b)))"

text \<open>
  \<open>restoreBackup\<close> returns the file system and the index as it leaves them, and its
  boolean. Every exception inside is caught and gives \<open>false\<close>.
\<close>

definition restoreBackup ::
  "(string \<Rightarrow> string) \<Rightarrow> (string \<Rightarrow> string) \<Rightarrow> filesystem \<Rightarrow> backup_index \<Rightarrow>
     string \<Rightarrow> int option \<Rightarrow> (filesystem \<times> backup_index) \<times> bool" where
  "restoreBackup sha256_hex path_resolve fs backupIndex filePath backupTimestamp =
     (let resolvedPath = path_resolve filePath in
      case backupIndex resolvedPath of
        None \<Rightarrow> ((fs, backupIndex), False)
      | Some backups \<Rightarrow>
          if length backups = 0 then ((fs, backupIndex), False)
          else
            (let (backups', found) = selectBackup backups backupTimestamp;
                 backupIndex' = backupIndex(resolvedPath \<mapsto> backups')
             in case found of
                  None \<Rightarrow> ((fs, backupIndex'), False)
                | Some backup \<Rightarrow>
                    (case readFile fs (backupPath backup) of
                       Inl err \<Rightarrow> ((fs, backupIndex'), False)
                     | Inr text \<Rightarrow>
                         if computeChecksum sha256_hex text \<noteq> checksum backup
                         then ((fs, backupIndex'), False)
                         else
                           (case writeFile fs resolvedPath text of
                              Inl err \<Rightarrow> ((fs, backupIndex'), False)
                            | Inr fs' \<Rightarrow> ((fs', backupIndex'), True)))))"

section \<open>The batch editor (src/tools/batch-editor.ts)\<close>

datatype position = Start | End | At (line: int) (character: int)

record BatchEditParams =
  search :: "string option"
  replace :: "string option"
  regex :: "bool option"
  caseSensitive :: "bool option"
  wholeWord :: "bool option"
  param_content :: "string option"
  position :: "position option"
  startLine :: "int option"
  endLine :: "int option"
  oldName :: "string option"
  newName :: "string option"

record BatchEditOperation =
  op_type :: string
  files :: "string list option"
  pattern :: "string option"
  searchType :: "string option"
  includePattern :: "string option"
  excludePattern :: "string option"
  params :: BatchEditParams

record BatchEditResult =
  res_file :: string
  res_success :: bool
  changes :: "nat option"
  res_error :: "string option"
  preview :: "string option"

record SearchOptions =
  so_searchType :: string
  so_includePattern :: "string option"
  so_excludePattern :: "string option"

record ConfirmationOptions =
  co_operation :: string
  co_filename :: "string option"
  co_showVSCodeOpen :: bool
  co_content :: string

text \<open>
  What the batch editor asks of the platform and of the other services: their answers
  are given, as functions of what is asked. \<open>'re\<close> is the type of compiled regular
  expressions; \<open>RegExp_new\<close> may throw on a pattern it cannot compile.
  \<open>parseSearchResults\<close>, a total function of the editor built on regular
  expressions, is taken the same way. \<open>BackupManager.createBackup\<close> catches every
  exception and its result is not used, so it does not appear.
\<close>

record 're Platform =
  path_resolve :: "string \<Rightarrow> string"
  existsSync :: "string \<Rightarrow> bool"
  fs_readFile :: "string \<Rightarrow> js_error + string"
  fs_writeFile :: "string \<Rightarrow> string \<Rightarrow> js_error option"
  search_search :: "string \<Rightarrow> SearchOptions \<Rightarrow> js_error + ToolResult"
  parseSearchResults :: "string \<Rightarrow> string list"
  fileOperations :: bool
  allOperations :: bool
  requestConfirmation_service :: "ConfirmationOptions \<Rightarrow> string \<Rightarrow> js_error + bool"
  RegExp_new :: "string \<Rightarrow> string \<Rightarrow> js_error + 're"
  String_replace :: "string \<Rightarrow> 're \<Rightarrow> string \<Rightarrow> string"

subsection \<open>Lines of a text\<close>

text \<open>\<open>content.split("\n")\<close> and \<open>lines.join("\n")\<close>.\<close>

fun split_on :: "'a \<Rightarrow> 'a list \<Rightarrow> 'a list list" where
  "split_on sep [] = [[]]"
| "split_on sep (x # xs) =
     (if x = sep then [] # split_on sep xs
      else (case split_on sep xs of [] \<Rightarrow> [[x]] | l # ls \<Rightarrow> (x # l) # ls))"

fun join_with :: "'a \<Rightarrow> 'a list list \<Rightarrow> 'a list" where
  "join_with sep [] = []"
| "join_with sep [l] = l"
| "join_with sep (l # ls) = l @ [sep] @ join_with sep ls"

text \<open>\<open>xs[i]\<close> is \<open>undefined\<close> past the end.\<close>

definition nth_opt :: "'a list \<Rightarrow> nat \<Rightarrow> 'a option" where
  "nth_opt xs i = (if i < length xs then Some (xs ! i) else None)"

text \<open>
  The index at which \<open>slice\<close> cuts a string of length \<open>len\<close>: a negative index
  counts from the end, and the result is kept within the string.
\<close>

definition slice_index :: "nat \<Rightarrow> int \<Rightarrow> nat" where
  "slice_index len i = (if i < 0 then nat (max (int len + i) 0) else min (nat i) len)"

subsection \<open>The four operations\<close>

definition backslash :: char where
  "backslash = CHR 0x5C"

text \<open>
  The replacement of every character of the class \<open>.*+?^${}()|[]\<close> and of the
  backslash by a backslash and the character itself.
\<close>

definition escapeRegExp :: "string \<Rightarrow> string" where
  "escapeRegExp s =
     concat (map (\<lambda>c. if c \<in> set (''.*+?^${}()|[]'' @ [backslash]) then [backslash, c] else [c]) s)"

definition applySearchReplace ::
  "'re Platform \<Rightarrow> string \<Rightarrow> BatchEditParams \<Rightarrow> js_error + string" where
  "applySearchReplace pf text ps =
     (if \<not> truthy (search ps) then Inr text
      else
        (case replace ps of
           None \<Rightarrow> Inr text
         | Some replacement \<Rightarrow>
             (let flags = ''g'' @ (if caseSensitive ps = Some True then [] else ''i'') in
              if regex ps = Some True then
                (case RegExp_new pf (template (search ps)) flags of
                   Inl err \<Rightarrow> Inr text
                 | Inr pat \<Rightarrow> Inr (String_replace pf text pat replacement))
              else
                (let escaped = escapeRegExp (template (search ps));
                     wordBoundary = (if wholeWord ps = Some True then [backslash, CHR ''b''] else [])
                 in case RegExp_new pf (wordBoundary @ escaped @ wordBoundary) flags of
                      Inl err \<Rightarrow> Inl err
                    | Inr pat \<Rightarrow> Inr (String_replace pf text pat replacement)))))"

definition applyInsert :: "string \<Rightarrow> BatchEditParams \<Rightarrow> string" where
  "applyInsert text ps =
     (if \<not> truthy (param_content ps) then text
      else
        (let lines = split_on newline text;
             inserted = template (param_content ps)
         in case position ps of
              Some Start \<Rightarrow> inserted @ [newline] @ text
            | Some End \<Rightarrow> text @ [newline] @ inserted
            | Some (At l c) \<Rightarrow>
                if l < 0 \<or> l \<ge> int (length lines) then text
                else
                  (let targetLine = lines ! nat l;
                       k = slice_index (length targetLine) c
                   in join_with newline
                        (lines[nat l := take k targetLine @ inserted @ drop k targetLine]))
            | None \<Rightarrow> text))"

text \<open>\<open>lines.splice(start, n)\<close> removes \<open>n\<close> elements from index \<open>start\<close>.\<close>

definition splice :: "'a list \<Rightarrow> nat \<Rightarrow> nat \<Rightarrow> 'a list" where
  "splice xs start n = take start xs @ drop (start + n) xs"

definition applyDelete :: "string \<Rightarrow> BatchEditParams \<Rightarrow> string" where
  "applyDelete text ps =
     (case startLine ps of
        None \<Rightarrow> text
      | Some s \<Rightarrow>
          (case endLine ps of
             None \<Rightarrow> text
           | Some e \<Rightarrow>
               (let lines = split_on newline text in
                if s < 0 \<or> e < 0 \<or> s \<ge> int (length lines) \<or> e \<ge> int (length lines) \<or> s > e
                then text
                else join_with newline (splice lines (nat s) (nat (e - s + 1))))))"

definition applyRenameSymbol ::
  "'re Platform \<Rightarrow> string \<Rightarrow> BatchEditParams \<Rightarrow> js_error + string" where
  "applyRenameSymbol pf text ps =
     (if \<not> truthy (oldName ps) \<or> \<not> truthy (newName ps) then Inr text
      else
        (let escaped = escapeRegExp (template (oldName ps)) in
         case RegExp_new pf ([backslash, CHR ''b''] @ escaped @ [backslash, CHR ''b'']) ''g'' of
           Inl err \<Rightarrow> Inl err
         | Inr pat \<Rightarrow> Inr (String_replace pf text pat (template (newName ps)))))"

definition applyOperation ::
  "'re Platform \<Rightarrow> string \<Rightarrow> BatchEditOperation \<Rightarrow> js_error + string" where
  "applyOperation pf text operation =
     (if op_type operation = ''search-replace'' then applySearchReplace pf text (params operation)
      else if op_type operation = ''insert'' then Inr (applyInsert text (params operation))
      else if op_type operation = ''delete'' then Inr (applyDelete text (params operation))
      else if op_type operation = ''rename-symbol'' then applyRenameSymbol pf text (params operation)
      else Inr text)"

subsection \<open>Counting and previewing changes\<close>

definition countChanges :: "string \<Rightarrow> string \<Rightarrow> nat" where
  "countChanges oldContent newContent =
     (let oldLines = split_on newline oldContent;
          newLines = split_on newline newContent;
          maxLength = max (length oldLines) (length newLines)
      in length (filter (\<lambda>i. nth_opt oldLines i \<noteq> nth_opt newLines i) [0..<maxLength]))"

text \<open>
  The loop of \<open>generatePreview\<close> over the line numbers still to visit, with the
  preview so far and the number of changes shown; it stops once \<open>maxChanges\<close> are shown.
\<close>

fun preview_loop ::
  "string list \<Rightarrow> string list \<Rightarrow> nat \<Rightarrow> nat list \<Rightarrow> string \<Rightarrow> nat \<Rightarrow> string \<times> nat" where
  "preview_loop oldLines newLines maxChanges [] pv changesShown = (pv, changesShown)"
| "preview_loop oldLines newLines maxChanges (i # rest) pv changesShown =
     (if \<not> changesShown < maxChanges then (pv, changesShown)
      else if nth_opt oldLines i \<noteq> nth_opt newLines i then
        preview_loop oldLines newLines maxChanges rest
          (pv
           @ (case nth_opt oldLines i of None \<Rightarrow> [] | Some l \<Rightarrow> ''  -'' @ l @ [newline])
           @ (case nth_opt newLines i of None \<Rightarrow> [] | Some l \<Rightarrow> ''  +'' @ l @ [newline]))
          (changesShown + 1)
      else preview_loop oldLines newLines maxChanges rest pv changesShown)"

definition generatePreview :: "string \<Rightarrow> string \<Rightarrow> nat \<Rightarrow> string" where
  "generatePreview oldContent newContent maxChanges =
     (let oldLines = split_on newline oldContent;
          newLines = split_on newline newContent;
          maxLength = max (length oldLines) (length newLines);
          (pv, changesShown) = preview_loop oldLines newLines maxChanges [0..<maxLength] [] 0
      in if changesShown = 0 then ''  (no changes)'' @ [newline]
         else if countChanges oldContent newContent > maxChanges then
           pv @ ''  ... ('' @ show_nat (countChanges oldContent newContent - maxChanges)
              @ '' more changes)'' @ [newline]
         else pv)"

definition failed_result :: "string \<Rightarrow> string \<Rightarrow> BatchEditResult" where
  "failed_result f msg =
     \<lparr>res_file = f, res_success = False, changes = None, res_error = Some msg, preview = None\<rparr>"

text \<open>\<open>previewChanges\<close>: the first three files, each in its own \<open>try\<close>.\<close>

definition previewChanges ::
  "'re Platform \<Rightarrow> string list \<Rightarrow> BatchEditOperation \<Rightarrow> BatchEditResult list" where
  "previewChanges pf fs operation =
     map (\<lambda>f. case fs_readFile pf f of
                 Inl err \<Rightarrow> failed_result f (message err)
               | Inr text \<Rightarrow>
                   (case applyOperation pf text operation of
                      Inl err \<Rightarrow> failed_result f (message err)
                    | Inr newContent \<Rightarrow>
                        \<lparr>res_file = f, res_success = True,
                         changes = Some (countChanges text newContent),
                         res_error = None,
                         preview = Some (generatePreview text newContent 5)\<rparr>))
         (take 3 fs)"

subsection \<open>Confirmation\<close>

definition show_changes :: "nat option \<Rightarrow> string" where
  "show_changes c = (case c of None \<Rightarrow> ''undefined'' | Some n \<Rightarrow> show_nat n)"

definition preview_text :: "BatchEditResult \<Rightarrow> string" where
  "preview_text p =
     [newline] @ res_file p @ '':'' @ [newline]
     @ (if res_success p then
          ''  Changes: '' @ show_changes (changes p) @ '' lines'' @ [newline]
          @ (if truthy (preview p) then template (preview p) else [])
        else ''  Error: '' @ template (res_error p) @ [newline])"

definition requestConfirmation ::
  "'re Platform \<Rightarrow> string list \<Rightarrow> BatchEditResult list \<Rightarrow> BatchEditOperation \<Rightarrow> js_error + bool" where
  "requestConfirmation pf fs previewResults operation =
     (if fileOperations pf \<or> allOperations pf then Inr True
      else
        (let confirmContent =
               ''Batch Edit: '' @ op_type operation @ [newline, newline]
               @ ''Files to modify: '' @ show_nat (length fs) @ [newline, newline]
               @ ''Preview (first '' @ show_nat (min 3 (length fs)) @ '' files):'' @ [newline]
               @ concat (map preview_text previewResults)
               @ (if length fs > 3 then
                    [newline] @ ''... and '' @ show_nat (length fs - 3) @ '' more files'' @ [newline]
                  else [])
         in requestConfirmation_service pf
              \<lparr>co_operation = ''Batch edit '' @ show_nat (length fs) @ '' files'',
               co_filename = nth_opt fs 0,
               co_showVSCodeOpen = False,
               co_content = confirmContent\<rparr>
              ''file''))"

subsection \<open>Execution\<close>

text \<open>
  \<open>chunkArray\<close>: the only call passes \<open>maxConcurrency = 5\<close>. For a chunk size of 0
  the source's loop does not advance; the model gives no chunk there.
\<close>

function chunkArray :: "'a list \<Rightarrow> nat \<Rightarrow> 'a list list" where
  "chunkArray array chunkSize =
     (if array = [] \<or> chunkSize = 0 then []
      else take chunkSize array # chunkArray (drop chunkSize array) chunkSize)"
  by pat_completeness auto

termination chunkArray
  by (relation "measure (\<lambda>(array, chunkSize). length array)") auto

declare chunkArray.simps [simp del]

definition maxConcurrency :: nat where
  "maxConcurrency = 5"

text \<open>\<open>processFile\<close>: the whole body is one \<open>try\<close>; its \<open>catch\<close> returns a result.\<close>

definition processFile ::
  "'re Platform \<Rightarrow> string \<Rightarrow> BatchEditOperation \<Rightarrow> js_error + BatchEditResult" where
  "processFile pf f operation =
     (case fs_readFile pf f of
        Inl err \<Rightarrow> Inr (failed_result f (message err))
      | Inr text \<Rightarrow>
          (case applyOperation pf text operation of
             Inl err \<Rightarrow> Inr (failed_result f (message err))
           | Inr newContent \<Rightarrow>
               if text = newContent then
                 Inr \<lparr>res_file = f, res_success = True, changes = Some 0,
                      res_error = None, preview = None\<rparr>
               else
                 (case fs_writeFile pf f newContent of
                    Some err \<Rightarrow> Inr (failed_result f (message err))
                  | None \<Rightarrow>
                      Inr \<lparr>res_file = f, res_success = True,
                           changes = Some (countChanges text newContent),
                           res_error = None, preview = None\<rparr>)))"

text \<open>
  \<open>executeBatchOperation\<close>: chunk after chunk, the settled results in the order of
  the files; a rejected \<open>processFile\<close> gives a failed result with the reason's message,
  or "Unknown error" when the message is empty.
\<close>

definition executeBatchOperation ::
  "'re Platform \<Rightarrow> string list \<Rightarrow> BatchEditOperation \<Rightarrow> BatchEditResult list" where
  "executeBatchOperation pf fs operation =
     concat (map (\<lambda>chunk.
                    map (\<lambda>f. case processFile pf f operation of
                               Inr v \<Rightarrow> v
                             | Inl reason \<Rightarrow>
                                 failed_result f
                                   (if message reason = [] then ''Unknown error'' else message reason))
                        chunk)
                 (chunkArray fs maxConcurrency))"

definition changes_or_0 :: "BatchEditResult \<Rightarrow> nat" where
  "changes_or_0 r = default_to 0 (changes r)"

definition formatResults :: "BatchEditResult list \<Rightarrow> ToolResult" where
  "formatResults rs =
     (let successful = filter res_success rs;
          failed = filter (\<lambda>r. \<not> res_success r) rs;
          totalChanges = foldl (\<lambda>sum r. sum + changes_or_0 r) 0 successful;
          filesChanged = length (filter (\<lambda>r. changes_or_0 r > 0) successful);
          changedFiles = filter (\<lambda>f. changes_or_0 f > 0) successful;
          out = ''Batch Edit Complete'' @ [newline, newline]
            @ ''Summary:'' @ [newline]
            @ ''  Successful: '' @ show_nat (length successful) @ ''/'' @ show_nat (length rs)
            @ '' files'' @ [newline]
            @ ''  Files changed: '' @ show_nat filesChanged @ [newline]
            @ ''  Total line changes: '' @ show_nat totalChanges @ [newline, newline]
            @ (if length failed > 0 then
                 ''Failed files:'' @ [newline]
                 @ concat (map (\<lambda>f. ''  - '' @ res_file f @ '': '' @ template (res_error f) @ [newline])
                               failed)
                 @ [newline]
               else [])
            @ (if length changedFiles > 0 then
                 ''Modified files:'' @ [newline]
                 @ concat (map (\<lambda>f. ''  - '' @ res_file f @ '' ('' @ show_changes (changes f)
                                      @ '' lines changed)'' @ [newline])
                               changedFiles)
               else ''No files were modified (no changes needed).'' @ [newline])
      in \<lparr>success = (length failed = 0), tool_output = Some out, error = None, data = None\<rparr>)"

subsection \<open>The tool\<close>

definition resolveFiles :: "'re Platform \<Rightarrow> BatchEditOperation \<Rightarrow> js_error + string list" where
  "resolveFiles pf operation =
     (if (case files operation of None \<Rightarrow> False | Some fs \<Rightarrow> length fs > 0) then
        Inr (filter (existsSync pf) (map (path_resolve pf) (default_to [] (files operation))))
      else if truthy (pattern operation) then
        (case search_search pf (template (pattern operation))
                \<lparr>so_searchType = (if truthy (searchType operation)
                                   then template (searchType operation) else ''files''),
                 so_includePattern = includePattern operation,
                 so_excludePattern = excludePattern operation\<rparr> of
           Inl err \<Rightarrow> Inl err
         | Inr searchResult \<Rightarrow>
             if \<not> success searchResult then Inr []
             else
               Inr (map (path_resolve pf)
                        (parseSearchResults pf
                           (if truthy (tool_output searchResult)
                            then template (tool_output searchResult) else []))))
      else Inr [])"

text \<open>The \<open>try\<close> block of \<open>batchEdit\<close>.\<close>

definition batchEdit_try :: "'re Platform \<Rightarrow> BatchEditOperation \<Rightarrow> js_error + ToolResult" where
  "batchEdit_try pf operation =
     (case resolveFiles pf operation of
        Inl err \<Rightarrow> Inl err
      | Inr fs \<Rightarrow>
          if length fs = 0 then Inr (failure ''No files found matching the criteria'')
          else
            (let previewResults = previewChanges pf fs operation in
             case requestConfirmation pf fs previewResults operation of
               Inl err \<Rightarrow> Inl err
             | Inr shouldProceed \<Rightarrow>
                 if \<not> shouldProceed then Inr (failure ''Batch edit cancelled by user'')
                 else Inr (formatResults (executeBatchOperation pf fs operation))))"

text \<open>
  \<open>batchEdit\<close>: the result is a sum, so that an exception leaving \<open>batchEdit\<close> would
  be a value.
\<close>

definition batchEdit :: "'re Platform \<Rightarrow> BatchEditOperation \<Rightarrow> js_error + ToolResult" where
  "batchEdit pf operation =
     (case batchEdit_try pf operation of
        Inr r \<Rightarrow> Inr r
      | Inl err \<Rightarrow> Inr (failure (''Batch edit failed: '' @ message err)))"

section \<open>Example inputs\<close>

definition bare_config :: TransportConfig where
  "bare_config = \<lparr>ttype = None, command = None, args = None, env = None,
                    url = None, headers = None\<rparr>"

text \<open>A server configured with the transport kind "ftp".\<close>

definition ftp_config :: TransportConfig where
  "ftp_config = bare_config\<lparr>ttype := Some ''ftp'', url := Some ''ftp://files.example''\<rparr>"

text \<open>The four recognized kinds, each without the property it requires.\<close>

definition stdio_no_command :: TransportConfig where
  "stdio_no_command = bare_config\<lparr>ttype := Some ''stdio'', args := Some [''-y'']\<rparr>"

definition http_no_url :: TransportConfig where
  "http_no_url = bare_config\<lparr>ttype := Some ''http''\<rparr>"

definition sse_no_url :: TransportConfig where
  "sse_no_url = bare_config\<lparr>ttype := Some ''sse''\<rparr>"

definition streamable_no_url :: TransportConfig where
  "streamable_no_url = bare_config\<lparr>ttype := Some ''streamable_http''\<rparr>"

text \<open>A local-process server whose configuration sets \<open>NODE_ENV\<close> and \<open>API_TOKEN\<close>.\<close>

definition dev_config :: TransportConfig where
  "dev_config = bare_config\<lparr>ttype := Some ''stdio'', command := Some ''npx'',
     env := Some [''NODE_ENV'' \<mapsto> ''development'', ''API_TOKEN'' \<mapsto> ''abc'']\<rparr>"

definition dev_transport :: StdioTransport where
  "dev_transport = \<lparr>stdio_config = dev_config, stdio_transport = None\<rparr>"

definition inherited_env :: "string \<rightharpoonup> string" where
  "inherited_env = [''PATH'' \<mapsto> ''/usr/bin'', ''API_TOKEN'' \<mapsto> ''old'']"

definition http_config_example :: TransportConfig where
  "http_config_example = bare_config\<lparr>ttype := Some ''http'', url := Some ''http://localhost:8080''\<rparr>"

text \<open>Project settings: two properties whose servers carry the same name.\<close>

definition docs_server :: MCPServerConfig where
  "docs_server = \<lparr>name = ''docs'', transport = dev_config\<rparr>"

definition duplicate_settings :: ProjectSettings where
  "duplicate_settings = \<lparr>model = None, mcpServers = Some [(''a'', docs_server), (''b'', docs_server)]\<rparr>"

text \<open>Project settings: the user configures a server named "zai-zread" of their own.\<close>

definition own_zread :: MCPServerConfig where
  "own_zread = \<lparr>name = ''zai-zread'', transport = http_config_example\<rparr>"

definition own_zread_settings :: ProjectSettings where
  "own_zread_settings = \<lparr>model = None, mcpServers = Some [(''zai-zread'', own_zread)]\<rparr>"

definition empty_settings :: ProjectSettings where
  "empty_settings = \<lparr>model = None, mcpServers = None\<rparr>"

definition key_env :: "string \<rightharpoonup> string" where
  "key_env = [''ZAI_API_KEY'' \<mapsto> ''k1'']"

definition empty_key_env :: "string \<rightharpoonup> string" where
  "empty_key_env = [''ZAI_API_KEY'' \<mapsto> [] ]"

text \<open>
  A file system with a file, its backup and a directory; the checksum function of the
  examples reverses the text.
\<close>

definition example_fs :: filesystem where
  "example_fs = [''/p/a.txt'' \<mapsto> File ''new'', ''/b/a1.bak'' \<mapsto> File ''old'',
                 ''/p/dir'' \<mapsto> Directory]"

definition good_backup :: BackupMetadata where
  "good_backup = \<lparr>originalPath = ''/p/a.txt'', backupPath = ''/b/a1.bak'', timestamp = 1700,
                    byte_size = 3, checksum = ''dlo''\<rparr>"

definition stale_backup :: BackupMetadata where
  "stale_backup = good_backup\<lparr>checksum := ''xyz''\<rparr>"

definition good_index :: backup_index where
  "good_index = [''/p/a.txt'' \<mapsto> [good_backup]]"

definition stale_index :: backup_index where
  "stale_index = [''/p/a.txt'' \<mapsto> [stale_backup]]"

text \<open>A batch deletion of the first line of one path, which is a directory.\<close>

definition no_params :: BatchEditParams where
  "no_params = \<lparr>search = None, replace = None, regex = None, caseSensitive = None,
                  wholeWord = None, param_content = None, position = None,
                  startLine = None, endLine = None, oldName = None, newName = None\<rparr>"

definition delete_first_line :: BatchEditOperation where
  "delete_first_line =
     \<lparr>op_type = ''delete'', files = Some [''/p/dir''], pattern = None, searchType = None,
      includePattern = None, excludePattern = None,
      params = no_params\<lparr>startLine := Some 0, endLine := Some 0\<rparr>\<rparr>"

definition dir_platform :: "unit Platform" where
  "dir_platform =
     \<lparr>path_resolve = (\<lambda>p. p),
      existsSync = (\<lambda>p. p = ''/p/dir''),
      fs_readFile = (\<lambda>p. Inl (Error ''EISDIR: illegal operation on a directory, read'')),
      fs_writeFile = (\<lambda>p text. Some (Error ''EISDIR: illegal operation on a directory, open'')),
      search_search = (\<lambda>q opts. Inr (failure ''no search'')),
      parseSearchResults = (\<lambda>out. []),
      fileOperations = True,
      allOperations = False,
      requestConfirmation_service = (\<lambda>opts kind. Inr True),
      RegExp_new = (\<lambda>p flags. Inr ()),
      String_replace = (\<lambda>text pat replacement. text)\<rparr>"

definition three_lines :: string where
  "three_lines = ''one'' @ [newline] @ ''two'' @ [newline] @ ''three''"

text \<open>A search tool with a key, and a network that is down.\<close>

definition example_tool :: WebSearchTool where
  "example_tool = \<lparr>apiKey = ''k1'', ws_baseURL = ''https://api.z.ai''\<rparr>"

definition offline_fetch :: "HttpRequest \<Rightarrow> js_error + HttpResponse" where
  "offline_fetch request = Inl (Error ''fetch failed'')"

text \<open>A search whose \<open>count\<close> option is \<open>NaN\<close>, and a \<open>fetch\<close> that rejects and
  reports whether the count of the request it was given is \<open>NaN\<close>.\<close>

definition nan_options :: WebSearchOptions where
  "nan_options = no_options\<lparr>count := Some NaN\<rparr>"

definition count_probe :: "HttpRequest \<Rightarrow> js_error + HttpResponse" where
  "count_probe request =
     Inl (Error (if rb_count (req_body request) = NaN then ''count is NaN''
                 else ''count is a number''))"

text \<open>
  A batch deletion of the first line of the files that a search by name finds: the
  search finds \<open>notes.md\<close>, which cannot be read. File operations are approved for
  the session.
\<close>

definition delete_by_pattern :: BatchEditOperation where
  "delete_by_pattern =
     \<lparr>op_type = ''delete'', files = None, pattern = Some ''notes'', searchType = None,
      includePattern = None, excludePattern = None,
      params = no_params\<lparr>startLine := Some 0, endLine := Some 0\<rparr>\<rparr>"

definition unreadable_platform :: "unit Platform" where
  "unreadable_platform =
     \<lparr>path_resolve = (\<lambda>p. ''/w/'' @ p),
      existsSync = (\<lambda>p. True),
      fs_readFile = (\<lambda>p. Inl (Error (''EACCES: permission denied, open '' @ p))),
      fs_writeFile = (\<lambda>p text. None),
      search_search = (\<lambda>q opts. Inr \<lparr>success = True,
                                        tool_output = Some (''Search results for notes:'' @ [newline]
                                                            @ ''  notes.md''),
                                        error = None, data = None\<rparr>),
      parseSearchResults = (\<lambda>out. [''notes.md'']),
      fileOperations = True,
      allOperations = False,
      requestConfirmation_service = (\<lambda>opts kind. Inr True),
      RegExp_new = (\<lambda>p flags. Inr ()),
      String_replace = (\<lambda>text pat replacement. text)\<rparr>"

section \<open>Properties of the transports\<close>

text \<open>
  Claim C2. A configuration whose \<open>type\<close> is absent, or is none of \<open>stdio\<close>,
  \<open>http\<close>, \<open>sse\<close> and \<open>streamable_http\<close>, makes \<open>createTransport\<close> throw
  "Unsupported transport type: ..."; no transport is produced.
\<close>

theorem createTransport_unsupported:
  assumes "ttype config \<notin> {Some ''stdio'', Some ''http'', Some ''sse'', Some ''streamable_http''}"
  shows "createTransport config = Inl (Error (''Unsupported transport type: '' @ template (ttype config)))
         \<and> \<not> (\<exists>t. createTransport config = Inr t)"
  using assms by (simp add: createTransport_def)

theorem createTransport_unsupported_witness:
  "ttype ftp_config \<notin> {Some ''stdio'', Some ''http'', Some ''sse'', Some ''streamable_http''}
   \<and> createTransport ftp_config = Inl (Error ''Unsupported transport type: ftp'')
   \<and> ttype bare_config \<notin> {Some ''stdio'', Some ''http'', Some ''sse'', Some ''streamable_http''}
   \<and> createTransport bare_config = Inl (Error ''Unsupported transport type: undefined'')"
  using createTransport_unsupported [of ftp_config] createTransport_unsupported [of bare_config]
  by (simp add: ftp_config_def bare_config_def template_def)

text \<open>
  Claim C3. A \<open>stdio\<close> configuration without a command, and an \<open>http\<close>, \<open>sse\<close> or
  \<open>streamable_http\<close> configuration without a URL, make the constructor of the
  transport throw, and so \<open>createTransport\<close>: there is no transport object on which
  \<open>connect\<close> could be called.
\<close>

theorem missing_required_field:
  "(ttype c = Some ''stdio'' \<and> command c = None \<longrightarrow>
      StdioTransport_new c = Inl (Error ''Command is required for stdio transport'')
      \<and> createTransport c = Inl (Error ''Command is required for stdio transport''))
   \<and> (ttype c = Some ''http'' \<and> url c = None \<longrightarrow>
      HttpTransport_new c = Inl (Error ''URL is required for HTTP transport'')
      \<and> createTransport c = Inl (Error ''URL is required for HTTP transport''))
   \<and> (ttype c = Some ''sse'' \<and> url c = None \<longrightarrow>
      SSETransport_new c = Inl (Error ''URL is required for SSE transport'')
      \<and> createTransport c = Inl (Error ''URL is required for SSE transport''))
   \<and> (ttype c = Some ''streamable_http'' \<and> url c = None \<longrightarrow>
      StreamableHttpTransport_new c = Inl (Error ''URL is required for streamable_http transport'')
      \<and> createTransport c = Inl (Error ''URL is required for streamable_http transport''))"
  by (simp add: createTransport_def StdioTransport_new_def HttpTransport_new_def
      SSETransport_new_def StreamableHttpTransport_new_def truthy_def)

theorem missing_required_field_witness:
  "(ttype stdio_no_command = Some ''stdio'' \<and> command stdio_no_command = None
     \<and> createTransport stdio_no_command = Inl (Error ''Command is required for stdio transport''))
   \<and> (ttype http_no_url = Some ''http'' \<and> url http_no_url = None
     \<and> createTransport http_no_url = Inl (Error ''URL is required for HTTP transport''))
   \<and> (ttype sse_no_url = Some ''sse'' \<and> url sse_no_url = None
     \<and> createTransport sse_no_url = Inl (Error ''URL is required for SSE transport''))
   \<and> (ttype streamable_no_url = Some ''streamable_http'' \<and> url streamable_no_url = None
     \<and> createTransport streamable_no_url = Inl (Error ''URL is required for streamable_http transport''))"
  using missing_required_field [of stdio_no_command] missing_required_field [of http_no_url]
    missing_required_field [of sse_no_url] missing_required_field [of streamable_no_url]
  by (simp add: stdio_no_command_def http_no_url_def sse_no_url_def streamable_no_url_def
      bare_config_def)

text \<open>
  Claim C4. On the channel of a \<open>streamable_http\<close> transport, \<open>send\<close> throws for
  every message the error that names the incompatibility with the request-response
  pattern; \<open>connect\<close> always yields such a channel. \<open>send\<close> is a total function whose
  value is always the error, so no call is left pending or dropped without one.
\<close>

theorem streamable_send_fails:
  "StreamableHttpClientTransport_send ch msg =
     Inl (Error (''StreamableHttpTransport: SSE endpoints are not compatible with MCP ''
       @ ''request-response pattern. GitHub Copilot MCP may require a different ''
       @ ''integration approach.''))
   \<and> (\<exists>ch'. snd (StreamableHttpTransport_connect t) = Inr ch'
        \<and> isl (StreamableHttpClientTransport_send ch' msg :: js_error + 'r))"
  by (simp add: StreamableHttpClientTransport_send_def StreamableHttpTransport_connect_def)

text \<open>
  Claim C7. A configuration with a URL constructs an \<open>http\<close> transport; on every such
  transport, whatever the health request does, \<open>connect\<close> returns a channel, sets
  \<open>connected\<close> and keeps the client; \<open>disconnect\<close> changes nothing but the
  \<open>connected\<close> flag, which it clears, and the client, which it drops.
\<close>

theorem http_connect_never_raises:
  "(truthy (url c) \<longrightarrow>
      HttpTransport_new c = Inr \<lparr>http_config = c, http_client = None, http_connected = False\<rparr>)
   \<and> snd (HttpTransport_connect get_health t) = Inr (HttpClientTransport (axios_create (http_config t)))
   \<and> http_connected (fst (HttpTransport_connect get_health t)) = True
   \<and> http_client (fst (HttpTransport_connect get_health t)) = Some (axios_create (http_config t))
   \<and> http_config (fst (HttpTransport_connect get_health t)) = http_config t
   \<and> HttpTransport_disconnect t = t\<lparr>http_connected := False, http_client := None\<rparr>
   \<and> http_connected (HttpTransport_disconnect t) = False
   \<and> http_client (HttpTransport_disconnect t) = None
   \<and> http_config (HttpTransport_disconnect t) = http_config t"
  by (simp add: HttpTransport_new_def HttpTransport_connect_def HttpTransport_disconnect_def
      Let_def split: sum.splits)

theorem http_connect_never_raises_witness:
  "truthy (url http_config_example)
   \<and> HttpTransport_new http_config_example =
       Inr \<lparr>http_config = http_config_example, http_client = None, http_connected = False\<rparr>
   \<and> snd (HttpTransport_connect (\<lambda>client. Inl (Error ''connect ECONNREFUSED'') :: js_error + unit)
            \<lparr>http_config = http_config_example, http_client = None, http_connected = False\<rparr>)
       = Inr (HttpClientTransport (axios_create http_config_example))
   \<and> http_connected (fst (HttpTransport_connect (\<lambda>client. Inl (Error ''connect ECONNREFUSED'') :: js_error + unit)
            \<lparr>http_config = http_config_example, http_client = None, http_connected = False\<rparr>))"
  using http_connect_never_raises [where c = http_config_example
      and get_health = "\<lambda>client. Inl (Error ''connect ECONNREFUSED'') :: js_error + unit"
      and t = "\<lparr>http_config = http_config_example, http_client = None, http_connected = False\<rparr>"]
  by (simp add: http_config_example_def bare_config_def truthy_def)

text \<open>
  Claim C6, as the code has it. \<open>connect\<close> never fails. In the environment it gives the
  subprocess, every variable other than \<open>MCP_REMOTE_QUIET\<close>, \<open>MCP_REMOTE_SILENT\<close>,
  \<open>DEBUG\<close> and \<open>NODE_ENV\<close> has the value of the configuration's \<open>env\<close> when that
  sets it, and the inherited value otherwise; these four always have the values "1",
  "1", "" and "production".
\<close>

theorem stdio_env_merge:
  "(k \<notin> {''MCP_REMOTE_QUIET'', ''MCP_REMOTE_SILENT'', ''DEBUG'', ''NODE_ENV''} \<longrightarrow>
       subprocess_getenv pe t k =
         (case spread (env (stdio_config t)) k of Some v \<Rightarrow> Some v | None \<Rightarrow> pe k))
   \<and> subprocess_getenv pe t ''MCP_REMOTE_QUIET'' = Some ''1''
   \<and> subprocess_getenv pe t ''MCP_REMOTE_SILENT'' = Some ''1''
   \<and> subprocess_getenv pe t ''DEBUG'' = Some []
   \<and> subprocess_getenv pe t ''NODE_ENV'' = Some ''production''
   \<and> (\<exists>p. snd (StdioTransport_connect pe t) = Inr p)"
  by (simp add: subprocess_getenv_def StdioTransport_connect_def Let_def quiet_env_def
      map_add_def split: option.splits)

theorem stdio_env_merge_witness:
  "''API_TOKEN'' \<notin> {''MCP_REMOTE_QUIET'', ''MCP_REMOTE_SILENT'', ''DEBUG'', ''NODE_ENV''}
   \<and> inherited_env ''API_TOKEN'' = Some ''old''
   \<and> spread (env (stdio_config dev_transport)) ''API_TOKEN'' = Some ''abc''
   \<and> subprocess_getenv inherited_env dev_transport ''API_TOKEN'' = Some ''abc''
   \<and> subprocess_getenv inherited_env dev_transport ''PATH'' = Some ''/usr/bin''"
  using stdio_env_merge [of "''API_TOKEN''" inherited_env dev_transport]
    stdio_env_merge [of "''PATH''" inherited_env dev_transport]
  by (simp add: inherited_env_def dev_transport_def dev_config_def bare_config_def spread_def)

text \<open>
  The claim as stated fails: a configuration that sets \<open>NODE_ENV\<close> to "development"
  gets a subprocess with \<open>NODE_ENV\<close> "production".
\<close>

theorem stdio_env_counterexample:
  "spread (env (stdio_config dev_transport)) ''NODE_ENV'' = Some ''development''
   \<and> subprocess_getenv inherited_env dev_transport ''NODE_ENV'' = Some ''production''"
  by (simp add: subprocess_getenv_def StdioTransport_connect_def Let_def quiet_env_def
      dev_transport_def dev_config_def bare_config_def spread_def)

section \<open>Properties of the server list\<close>

lemma builtin_names:
  "truthy (pe ''ZAI_API_KEY'') \<Longrightarrow> map name (getZaiBuiltInServers pe) = [''zai-zread'', ''zai-web-search'']"
  by (simp add: getZaiBuiltInServers_def Let_def)

lemma builtin_none:
  "\<not> truthy (pe ''ZAI_API_KEY'') \<Longrightarrow> getZaiBuiltInServers pe = []"
  by (simp add: getZaiBuiltInServers_def Let_def)

lemma builtin_distinct: "distinct (map name (getZaiBuiltInServers pe))"
  by (simp add: getZaiBuiltInServers_def Let_def)

lemma distinct_map_filter_names:
  "distinct (map f xs) \<Longrightarrow> distinct (map f (filter P xs))"
  by (induction xs) auto

text \<open>
  Claim C1, as the code has it. When \<open>ZAI_API_KEY\<close> is unset or empty, the result is
  the user-configured servers. When it is set to a non-empty value, the result is the
  user-configured servers followed by those of the two built-in servers, "zai-zread" and
  "zai-web-search" in this order, whose name no user-configured server carries. If the
  names of the user-configured servers are pairwise distinct, so are the names of the
  result; and a server of the result that carries a user-configured name is one of the
  user's.
\<close>

theorem loadMCPConfig_servers:
  "(\<not> truthy (pe ''ZAI_API_KEY'') \<longrightarrow> servers (loadMCPConfig ps pe) = userServers ps)
   \<and> (truthy (pe ''ZAI_API_KEY'') \<longrightarrow>
        map name (getZaiBuiltInServers pe) = [''zai-zread'', ''zai-web-search'']
        \<and> servers (loadMCPConfig ps pe) =
            userServers ps
            @ filter (\<lambda>s. name s \<notin> set (map name (userServers ps))) (getZaiBuiltInServers pe))
   \<and> (distinct (map name (userServers ps)) \<longrightarrow>
        distinct (map name (servers (loadMCPConfig ps pe))))
   \<and> (\<forall>s \<in> set (servers (loadMCPConfig ps pe)).
        name s \<in> set (map name (userServers ps)) \<longrightarrow> s \<in> set (userServers ps))"
proof (intro conjI impI ballI)
  assume "\<not> truthy (pe ''ZAI_API_KEY'')"
  then show "servers (loadMCPConfig ps pe) = userServers ps"
    by (simp add: loadMCPConfig_def builtin_none)
next
  assume "truthy (pe ''ZAI_API_KEY'')"
  then show "map name (getZaiBuiltInServers pe) = [''zai-zread'', ''zai-web-search'']"
    by (rule builtin_names)
next
  show "servers (loadMCPConfig ps pe) =
    userServers ps @ filter (\<lambda>s. name s \<notin> set (map name (userServers ps))) (getZaiBuiltInServers pe)"
    by (simp add: loadMCPConfig_def Let_def)
next
  assume d: "distinct (map name (userServers ps))"
  have "distinct (map name (filter (\<lambda>s. name s \<notin> set (map name (userServers ps))) (getZaiBuiltInServers pe)))"
    by (rule distinct_map_filter_names) (rule builtin_distinct)
  with d show "distinct (map name (servers (loadMCPConfig ps pe)))"
    by (auto simp: loadMCPConfig_def Let_def) (metis imageI)
next
  fix s
  assume "s \<in> set (servers (loadMCPConfig ps pe))" "name s \<in> set (map name (userServers ps))"
  then show "s \<in> set (userServers ps)"
    by (auto simp: loadMCPConfig_def Let_def)
qed

theorem loadMCPConfig_servers_witness:
  "truthy (key_env ''ZAI_API_KEY'')
   \<and> distinct (map name (userServers own_zread_settings))
   \<and> map name (servers (loadMCPConfig own_zread_settings key_env)) = [''zai-zread'', ''zai-web-search'']
   \<and> hd (servers (loadMCPConfig own_zread_settings key_env)) = own_zread
   \<and> distinct (map name (servers (loadMCPConfig own_zread_settings key_env)))
   \<and> \<not> truthy (empty_key_env ''ZAI_API_KEY'')
   \<and> servers (loadMCPConfig own_zread_settings empty_key_env) = [own_zread]"
  using loadMCPConfig_servers [of key_env own_zread_settings]
    loadMCPConfig_servers [of empty_key_env own_zread_settings]
  by (simp add: key_env_def empty_key_env_def own_zread_settings_def userServers_def
      Object_values_def own_zread_def truthy_def getZaiBuiltInServers_def Let_def)

text \<open>
  The claim as stated fails: two properties of the settings whose servers carry the same
  name give a result with that name twice; and a key that is set, to the empty string,
  adds no built-in server.
\<close>

theorem loadMCPConfig_counterexample:
  "\<not> distinct (map name (servers (loadMCPConfig duplicate_settings key_env)))
   \<and> empty_key_env ''ZAI_API_KEY'' \<noteq> None
   \<and> servers (loadMCPConfig empty_settings empty_key_env) = []"
  by (simp add: loadMCPConfig_def duplicate_settings_def empty_settings_def userServers_def
      Object_values_def docs_server_def empty_key_env_def key_env_def getZaiBuiltInServers_def
      truthy_def Let_def)

section \<open>Properties of the web search\<close>

text \<open>
  The count of the request body: 10 by default; a finite count below 1 gives 1, one above
  50 gives 50, one in between is kept; the infinities give 50 and 1; \<open>NaN\<close> stays
  \<open>NaN\<close>.
\<close>

lemma clamp_count:
  "Math_min (Math_max c (Num 1)) (Num 50) =
     (case c of
        Num x \<Rightarrow> Num (if x < 1 then 1 else if 50 < x then 50 else x)
      | PosInfinity \<Rightarrow> Num 50
      | NegInfinity \<Rightarrow> Num 1
      | NaN \<Rightarrow> NaN)"
  by (cases c) auto

lemma request_count:
  "rb_count (req_body (search_request tool q opts)) =
     Math_min (Math_max (default_to (Num 10) (count opts)) (Num 1)) (Num 50)"
  by (simp add: search_request_def requestBody_def)

text \<open>
  What \<open>search\<close> sends: with a \<open>fetch\<close> that rejects and reports the count of the
  request it is given, \<open>search\<close> returns the report of the count above; and the
  result of \<open>search\<close> depends on \<open>fetch\<close> only through its answers to requests
  with that count.
\<close>

lemma count_sent_by_search:
  "apiKey tool \<noteq> [] \<Longrightarrow>
   WebSearchTool_search (\<lambda>request. Inl (Error (observe (rb_count (req_body request))))) tool q opts
     = Inr (failure (''Web search error: ''
         @ observe (case default_to (Num 10) (count (default_to no_options opts)) of
                      Num x \<Rightarrow> Num (if x < 1 then 1 else if 50 < x then 50 else x)
                    | PosInfinity \<Rightarrow> Num 50
                    | NegInfinity \<Rightarrow> Num 1
                    | NaN \<Rightarrow> NaN)))"
  by (simp add: WebSearchTool_search_def search_try_def Let_def request_count clamp_count)

lemma search_asks_only_clamped:
  "\<forall>request. rb_count (req_body request) =
       Math_min (Math_max (default_to (Num 10) (count (default_to no_options opts))) (Num 1)) (Num 50)
     \<longrightarrow> fetch request = fetch' request \<Longrightarrow>
   WebSearchTool_search fetch tool q opts = WebSearchTool_search fetch' tool q opts"
  by (simp add: WebSearchTool_search_def search_try_def Let_def request_count)

lemma count_in_range_is_sent:
  "WebSearchTool_search count_probe example_tool ''isabelle'' (Some (no_options\<lparr>count := Some (Num 100)\<rparr>))
     = Inr (failure ''Web search error: count is a number'')
   \<and> rb_count (requestBody ''isabelle'' (no_options\<lparr>count := Some (Num 100)\<rparr>)) = Num 50
   \<and> rb_count (requestBody ''isabelle'' (no_options\<lparr>count := Some (Num 0)\<rparr>)) = Num 1
   \<and> rb_count (requestBody ''isabelle'' (no_options\<lparr>count := Some (Num 25)\<rparr>)) = Num 25
   \<and> rb_count (requestBody ''isabelle'' no_options) = Num 10"
  by (simp add: WebSearchTool_search_def search_try_def search_request_def requestBody_def
      count_probe_def example_tool_def no_options_def default_to_def Let_def)

text \<open>
  Claim C8 at a failing input: the count option \<open>NaN\<close>, a number. The request that
  \<open>search\<close> hands to \<open>fetch\<close> carries the count \<open>NaN\<close>, which lies outside the
  range 1 to 50 that the claim and the source's comment "Clamp to 1-50" give.
\<close>

theorem count_NaN_is_sent:
  "count nan_options = Some NaN
   \<and> WebSearchTool_search count_probe example_tool ''isabelle'' (Some nan_options)
       = Inr (failure ''Web search error: count is NaN'')
   \<and> rb_count (requestBody ''isabelle'' nan_options) = NaN"
  by (simp add: WebSearchTool_search_def search_try_def search_request_def requestBody_def
      count_probe_def example_tool_def nan_options_def no_options_def default_to_def Let_def)

section \<open>Properties of the batch editor\<close>

text \<open>The lines of a text: there is one more than newlines, and joining them gives the text back.\<close>

lemma split_on_not_Nil: "split_on sep xs \<noteq> []"
  by (induction xs) (auto split: list.splits)

lemma length_split_on: "length (split_on sep xs) = Suc (length (filter (\<lambda>x. x = sep) xs))"
  by (induction xs) (auto simp: split_on_not_Nil split: list.splits)

lemma join_with_Cons: "ls \<noteq> [] \<Longrightarrow> join_with sep (l # ls) = l @ sep # join_with sep ls"
  by (cases ls) auto

lemma join_split_on: "join_with sep (split_on sep xs) = xs"
proof (induction xs)
  case Nil
  show ?case by simp
next
  case (Cons x xs)
  show ?case
  proof (cases "x = sep")
    case True
    with Cons show ?thesis by (simp add: join_with_Cons split_on_not_Nil)
  next
    case False
    obtain l ls where sp: "split_on sep xs = l # ls"
      using split_on_not_Nil [of sep xs] by (cases "split_on sep xs") auto
    with Cons False show ?thesis by (cases ls) auto
  qed
qed

text \<open>
  Claim C10. A deletion whose \<open>startLine\<close> or \<open>endLine\<close> is negative, or at or past
  the number of lines, or whose \<open>startLine\<close> is greater than its \<open>endLine\<close>, returns
  the text unchanged; so does an insertion at a position whose line is negative or at or
  past the number of lines. \<open>applyOperation\<close> returns the text there and does not throw.
\<close>

theorem invalid_positions_are_noops:
  "(startLine ps = Some s \<and> endLine ps = Some e
      \<and> (s < 0 \<or> e < 0 \<or> int (length (split_on newline doc)) \<le> s
          \<or> int (length (split_on newline doc)) \<le> e \<or> e < s)
      \<longrightarrow> applyDelete doc ps = doc
          \<and> (op_type operation = ''delete'' \<and> params operation = ps
               \<longrightarrow> applyOperation pf doc operation = Inr doc))
   \<and> (position ps = Some (At l c)
      \<and> (l < 0 \<or> int (length (split_on newline doc)) \<le> l)
      \<longrightarrow> applyInsert doc ps = doc
          \<and> (op_type operation = ''insert'' \<and> params operation = ps
               \<longrightarrow> applyOperation pf doc operation = Inr doc))"
  by (auto simp: applyDelete_def applyInsert_def applyOperation_def Let_def)

theorem invalid_positions_are_noops_witness:
  "length (split_on newline three_lines) = 3
   \<and> applyDelete three_lines (no_params\<lparr>startLine := Some 3, endLine := Some 3\<rparr>) = three_lines
   \<and> applyOperation dir_platform three_lines
        (delete_first_line\<lparr>params := no_params\<lparr>startLine := Some 3, endLine := Some 3\<rparr>\<rparr>)
       = Inr three_lines
   \<and> applyDelete three_lines (no_params\<lparr>startLine := Some (- 1), endLine := Some 1\<rparr>) = three_lines
   \<and> applyDelete three_lines (no_params\<lparr>startLine := Some 2, endLine := Some 1\<rparr>) = three_lines
   \<and> applyInsert three_lines (no_params\<lparr>param_content := Some ''x'', position := Some (At 3 0)\<rparr>)
       = three_lines
   \<and> applyInsert three_lines (no_params\<lparr>param_content := Some ''x'', position := Some (At (- 1) 0)\<rparr>)
       = three_lines"
  using
    invalid_positions_are_noops [where ps = "no_params\<lparr>startLine := Some 3, endLine := Some 3\<rparr>"
      and s = 3 and e = 3 and doc = three_lines and pf = dir_platform
      and operation = "delete_first_line\<lparr>params := no_params\<lparr>startLine := Some 3, endLine := Some 3\<rparr>\<rparr>"]
    invalid_positions_are_noops [where ps = "no_params\<lparr>startLine := Some (- 1), endLine := Some 1\<rparr>"
      and s = "- 1" and e = 1 and doc = three_lines and pf = dir_platform and operation = delete_first_line]
    invalid_positions_are_noops [where ps = "no_params\<lparr>startLine := Some 2, endLine := Some 1\<rparr>"
      and s = 2 and e = 1 and doc = three_lines and pf = dir_platform and operation = delete_first_line]
    invalid_positions_are_noops [where ps = "no_params\<lparr>param_content := Some ''x'', position := Some (At 3 0)\<rparr>"
      and l = 3 and c = 0 and doc = three_lines and pf = dir_platform and operation = delete_first_line]
    invalid_positions_are_noops [where ps = "no_params\<lparr>param_content := Some ''x'', position := Some (At (- 1) 0)\<rparr>"
      and l = "- 1" and c = 0 and doc = three_lines and pf = dir_platform and operation = delete_first_line]
  by (simp add: three_lines_def newline_def no_params_def delete_first_line_def)

text \<open>Within the range, the operations do change the text.\<close>

lemma in_range_delete_example:
  "applyDelete three_lines (no_params\<lparr>startLine := Some 1, endLine := Some 1\<rparr>)
     = ''one'' @ [newline] @ ''three''"
  by (simp add: applyDelete_def three_lines_def newline_def no_params_def Let_def splice_def)

lemma in_range_insert_example:
  "applyInsert three_lines (no_params\<lparr>param_content := Some ''x'', position := Some (At 1 1)\<rparr>)
     = ''one'' @ [newline] @ ''txwo'' @ [newline] @ ''three''"
  by (simp add: applyInsert_def three_lines_def newline_def no_params_def Let_def slice_index_def
      truthy_def template_def)

section \<open>Properties of the backup manager\<close>

text \<open>The backup that \<open>restoreBackup\<close> chooses is one of the backups of the index.\<close>

lemma writeFile_Inr: "writeFile fs p doc = Inr fs' \<Longrightarrow> fs' = fs(p \<mapsto> File doc)"
  by (auto simp: writeFile_def split: option.splits fs_node.splits)

lemma find_mem: "find P xs = Some x \<Longrightarrow> x \<in> set xs"
  by (induction xs) (auto split: if_splits)

lemma latest_mem:
  "(case sort_key f xs of [] \<Rightarrow> None | b # rest \<Rightarrow> Some b) = Some x \<Longrightarrow> x \<in> set xs"
proof -
  assume "(case sort_key f xs of [] \<Rightarrow> None | b # rest \<Rightarrow> Some b) = Some x"
  then obtain rest where "sort_key f xs = x # rest"
    by (auto split: list.splits)
  then have "x \<in> set (sort_key f xs)" by simp
  then show ?thesis by simp
qed

lemma selectBackup_mem:
  "selectBackup backups ts = (backups', Some b) \<Longrightarrow> b \<in> set backups"
  by (auto simp: selectBackup_def Let_def split: option.splits if_splits
      dest: find_mem latest_mem)

text \<open>
  Claim C9. When the checksum recomputed from the text of the chosen backup's file
  differs from the stored one, \<open>restoreBackup\<close> returns \<open>false\<close> and the file
  system is as before. Whenever it returns \<open>false\<close> the file system is as before.
  When it returns \<open>true\<close>, a backup was chosen, its file was read, the recomputed
  checksum equals the stored one, and the target file holds the backup's text.
\<close>

theorem restoreBackup_checksum:
  "(backupIndex (resolve filePath) = Some backups \<and> backups \<noteq> []
      \<and> selectBackup backups ts = (backups', Some b)
      \<and> readFile fs (backupPath b) = Inr doc
      \<and> computeChecksum digest doc \<noteq> checksum b
      \<longrightarrow> restoreBackup digest resolve fs backupIndex filePath ts
            = ((fs, backupIndex(resolve filePath \<mapsto> backups')), False))
   \<and> (snd (restoreBackup digest resolve fs backupIndex filePath ts) = False
      \<longrightarrow> fst (fst (restoreBackup digest resolve fs backupIndex filePath ts)) = fs)
   \<and> (snd (restoreBackup digest resolve fs backupIndex filePath ts) = True
      \<longrightarrow> (\<exists>backups backups' b doc.
            backupIndex (resolve filePath) = Some backups
            \<and> selectBackup backups ts = (backups', Some b)
            \<and> readFile fs (backupPath b) = Inr doc
            \<and> computeChecksum digest doc = checksum b
            \<and> fst (fst (restoreBackup digest resolve fs backupIndex filePath ts))
                = fs(resolve filePath \<mapsto> File doc)))"
proof (intro conjI impI)
  assume "backupIndex (resolve filePath) = Some backups \<and> backups \<noteq> []
      \<and> selectBackup backups ts = (backups', Some b)
      \<and> readFile fs (backupPath b) = Inr doc
      \<and> computeChecksum digest doc \<noteq> checksum b"
  then show "restoreBackup digest resolve fs backupIndex filePath ts
            = ((fs, backupIndex(resolve filePath \<mapsto> backups')), False)"
    by (simp add: restoreBackup_def Let_def)
next
  assume "snd (restoreBackup digest resolve fs backupIndex filePath ts) = False"
  then show "fst (fst (restoreBackup digest resolve fs backupIndex filePath ts)) = fs"
    by (auto simp: restoreBackup_def Let_def split: option.splits sum.splits if_splits prod.splits)
next
  assume "snd (restoreBackup digest resolve fs backupIndex filePath ts) = True"
  then show "\<exists>backups backups' b doc.
            backupIndex (resolve filePath) = Some backups
            \<and> selectBackup backups ts = (backups', Some b)
            \<and> readFile fs (backupPath b) = Inr doc
            \<and> computeChecksum digest doc = checksum b
            \<and> fst (fst (restoreBackup digest resolve fs backupIndex filePath ts))
                = fs(resolve filePath \<mapsto> File doc)"
    by (auto simp: restoreBackup_def Let_def dest: writeFile_Inr
        split: option.splits sum.splits if_splits prod.splits)
qed

theorem restoreBackup_checksum_witness:
  "stale_index ''/p/a.txt'' = Some [stale_backup]
   \<and> selectBackup [stale_backup] None = ([stale_backup], Some stale_backup)
   \<and> readFile example_fs (backupPath stale_backup) = Inr ''old''
   \<and> computeChecksum rev ''old'' \<noteq> checksum stale_backup
   \<and> snd (restoreBackup rev (\<lambda>p. p) example_fs stale_index ''/p/a.txt'' None) = False
   \<and> fst (fst (restoreBackup rev (\<lambda>p. p) example_fs stale_index ''/p/a.txt'' None)) = example_fs
   \<and> snd (restoreBackup rev (\<lambda>p. p) example_fs good_index ''/p/a.txt'' None) = True
   \<and> fst (fst (restoreBackup rev (\<lambda>p. p) example_fs good_index ''/p/a.txt'' None)) ''/p/a.txt''
       = Some (File ''old'')"
  using restoreBackup_checksum [where backupIndex = stale_index and resolve = "\<lambda>p. p"
      and filePath = "''/p/a.txt''" and backups = "[stale_backup]" and backups' = "[stale_backup]"
      and ts = None and b = stale_backup and fs = example_fs and doc = "''old''" and digest = rev]
  by (simp add: stale_index_def good_index_def stale_backup_def good_backup_def example_fs_def
      selectBackup_def readFile_def writeFile_def computeChecksum_def restoreBackup_def Let_def)

section \<open>Properties of the results of the tools\<close>

lemma failure_shape:
  "success (failure m) = False" "error (failure m) = Some m" "tool_output (failure m) = None"
  by (simp_all add: failure_def)

lemma search_try_shape:
  "search_try fetch tool q opts = Inr r \<Longrightarrow>
     (success r \<longrightarrow> (\<exists>s. tool_output r = Some s) \<and> error r = None)
     \<and> (\<not> success r \<longrightarrow> (\<exists>m. error r = Some m \<and> m \<noteq> []))"
  by (auto simp: search_try_def Let_def failure_def split: sum.splits if_splits option.splits)

lemma formatResults_shape:
  "tool_output (formatResults rs) \<noteq> None" "error (formatResults rs) = None"
  "success (formatResults rs) = (\<forall>r \<in> set rs. res_success r)"
  by (auto simp: formatResults_def Let_def filter_empty_conv)

lemma batchEdit_try_shape:
  "batchEdit_try pf operation = Inr r \<Longrightarrow>
     (\<exists>m. r = failure m \<and> m \<noteq> [])
     \<or> (\<exists>fs. resolveFiles pf operation = Inr fs
            \<and> r = formatResults (executeBatchOperation pf fs operation))"
  by (auto simp: batchEdit_try_def Let_def split: sum.splits if_splits)

text \<open>
  \<open>search\<close> and \<open>batchEdit\<close> always return a result and never throw. The only
  failed result without an error string is the report of \<open>formatResults\<close> on a
  batch in which some file failed.
\<close>

lemma tools_results_shape:
  "(\<exists>r. WebSearchTool_search fetch tool q opts = Inr r
        \<and> (success r \<longrightarrow> (\<exists>s. tool_output r = Some s))
        \<and> (\<not> success r \<longrightarrow> (\<exists>m. error r = Some m \<and> m \<noteq> [])))
   \<and> (\<exists>r. batchEdit pf operation = Inr r
        \<and> (success r \<longrightarrow> (\<exists>s. tool_output r = Some s))
        \<and> (\<not> success r \<longrightarrow>
              (\<exists>m. error r = Some m \<and> m \<noteq> [])
              \<or> (error r = None
                  \<and> (\<exists>s. tool_output r = Some s)
                  \<and> (\<exists>fs. resolveFiles pf operation = Inr fs
                        \<and> r = formatResults (executeBatchOperation pf fs operation)
                        \<and> \<not> (\<forall>f \<in> set (executeBatchOperation pf fs operation). res_success f)))))"
proof (rule conjI)
  show "\<exists>r. WebSearchTool_search fetch tool q opts = Inr r
        \<and> (success r \<longrightarrow> (\<exists>s. tool_output r = Some s))
        \<and> (\<not> success r \<longrightarrow> (\<exists>m. error r = Some m \<and> m \<noteq> []))"
  proof (cases "apiKey tool = []")
    case True
    then show ?thesis by (simp add: WebSearchTool_search_def failure_def)
  next
    case False
    show ?thesis
    proof (cases "search_try fetch tool q (default_to no_options opts)")
      case (Inl err)
      with False show ?thesis by (simp add: WebSearchTool_search_def failure_def)
    next
      case (Inr r)
      with False search_try_shape [OF Inr] show ?thesis
        by (auto simp: WebSearchTool_search_def)
    qed
  qed
next
  show "\<exists>r. batchEdit pf operation = Inr r
        \<and> (success r \<longrightarrow> (\<exists>s. tool_output r = Some s))
        \<and> (\<not> success r \<longrightarrow>
              (\<exists>m. error r = Some m \<and> m \<noteq> [])
              \<or> (error r = None
                  \<and> (\<exists>s. tool_output r = Some s)
                  \<and> (\<exists>fs. resolveFiles pf operation = Inr fs
                        \<and> r = formatResults (executeBatchOperation pf fs operation)
                        \<and> \<not> (\<forall>f \<in> set (executeBatchOperation pf fs operation). res_success f))))"
  proof (cases "batchEdit_try pf operation")
    case (Inl err)
    then show ?thesis by (simp add: batchEdit_def failure_def)
  next
    case (Inr r)
    then have be: "batchEdit pf operation = Inr r" by (simp add: batchEdit_def)
    from batchEdit_try_shape [OF Inr] show ?thesis
    proof
      assume "\<exists>m. r = failure m \<and> m \<noteq> []"
      with be show ?thesis by (auto simp: failure_def)
    next
      assume "\<exists>fs. resolveFiles pf operation = Inr fs
            \<and> r = formatResults (executeBatchOperation pf fs operation)"
      then obtain fs where fs: "resolveFiles pf operation = Inr fs"
        and r: "r = formatResults (executeBatchOperation pf fs operation)" by blast
      from formatResults_shape [of "executeBatchOperation pf fs operation"] be fs r
      show ?thesis by auto
    qed
  qed
qed

text \<open>
  Claim C5 at a failing input: a batch deletion on the file that a search by name finds,
  which cannot be read. The batch is executed, the file fails, and \<open>batchEdit\<close>
  returns the report of \<open>formatResults\<close>: a result with \<open>success = false\<close> and no
  error string, where the claim requires a non-empty one.
\<close>

theorem batchEdit_failed_report_has_no_error:
  "batchEdit unreadable_platform delete_by_pattern =
     Inr (formatResults [failed_result ''/w/notes.md'' ''EACCES: permission denied, open /w/notes.md''])
   \<and> success (formatResults [failed_result ''/w/notes.md'' ''EACCES: permission denied, open /w/notes.md''])
       = False
   \<and> error (formatResults [failed_result ''/w/notes.md'' ''EACCES: permission denied, open /w/notes.md''])
       = None"
  by (simp add: batchEdit_def batchEdit_try_def resolveFiles_def delete_by_pattern_def
      unreadable_platform_def truthy_def template_def requestConfirmation_def
      executeBatchOperation_def processFile_def maxConcurrency_def chunkArray.simps
      formatResults_def failed_result_def Let_def)

end
